theory Spec2Isabelle
  imports Main
begin

section \<open>Text helpers of the Python string type\<close>

text \<open>
  Python strings are sequences of code points; the model covers the code points below
  256, one \<open>char\<close> each. \<open>lower\<close>, \<open>strip\<close> and \<open>isdigit\<close> are \<open>str.lower()\<close>,
  \<open>str.strip()\<close> and \<open>str.isdigit()\<close> on that range.
\<close>

definition lower_char :: "char \<Rightarrow> char" where
  "lower_char c =
     (let n = (of_char c :: nat)
      in if (65 \<le> n \<and> n \<le> 90) \<or> (192 \<le> n \<and> n \<le> 222 \<and> n \<noteq> 215)
         then char_of (n + 32) else c)"

definition lower :: "string \<Rightarrow> string" where
  "lower s = map lower_char s"

definition isspace :: "char \<Rightarrow> bool" where
  "isspace c =
     (let n = (of_char c :: nat)
      in (9 \<le> n \<and> n \<le> 13) \<or> (28 \<le> n \<and> n \<le> 32) \<or> n = 133 \<or> n = 160)"

definition strip :: "string \<Rightarrow> string" where
  "strip s = rev (dropWhile isspace (rev (dropWhile isspace s)))"

definition isdigit_char :: "char \<Rightarrow> bool" where
  "isdigit_char c =
     (let n = (of_char c :: nat)
      in (48 \<le> n \<and> n \<le> 57) \<or> n = 178 \<or> n = 179 \<or> n = 185)"

definition isdigit :: "string \<Rightarrow> bool" where
  "isdigit s = (s \<noteq> [] \<and> list_all isdigit_char s)"

section \<open>Data model\<close>

text \<open>
  A \<open>datetime\<close> is a UTC instant and a \<open>timedelta\<close> a duration, both counted in
  microseconds, the resolution of Python's types: an instant is its distance from the
  epoch. \<open>to_timestamp\<close> is the integer timestamp in seconds a token carries for an instant,
  and \<open>int_total_seconds\<close> is \<open>int(d.total_seconds())\<close> for a duration that is not negative.
\<close>

type_synonym datetime = int
type_synonym timedelta = int

definition timedelta_hours :: "int \<Rightarrow> timedelta" where
  "timedelta_hours h = h * 3600 * 1000000"

definition timedelta_days :: "int \<Rightarrow> timedelta" where
  "timedelta_days d = d * 86400 * 1000000"

definition int_total_seconds :: "timedelta \<Rightarrow> int" where
  "int_total_seconds d = d div 1000000"

definition to_timestamp :: "datetime \<Rightarrow> int" where
  "to_timestamp t = t div 1000000"

datatype uuid = UUID string

fun str_uuid :: "uuid \<Rightarrow> string" where
  "str_uuid (UUID s) = s"

text \<open>
  The \<open>User\<close> model of \<open>domain/models/user.py\<close>, with the columns it inherits from
  Django's \<open>AbstractUser\<close>. The primary key \<open>id\<close> is the field \<open>id_field\<close>.
\<close>

record user =
  id_field :: uuid
  password :: string
  last_login :: "datetime option"
  is_superuser :: bool
  username :: string
  first_name :: string
  last_name :: string
  email :: string
  is_staff :: bool
  is_active :: bool
  date_joined :: datetime
  email_verified :: bool
  avatar_url :: "string option"
  created_at :: datetime
  updated_at :: datetime
  last_login_ip :: "string option"

text \<open>The exceptions the service and its collaborators raise, each with its message.\<close>

datatype exn =
    AuthenticationError string
  | TokenError string
  | ValidationError "string list"
  | ValueError string
  | KeyError string
  | IntegrityError string

text \<open>
  Claims are a dictionary from field names to values, in the order the fields were
  written: text, a flag, a number, or (before encoding) an instant.
\<close>

datatype jval = Str string | Bool bool | Num int | Time datetime

type_synonym payload = "(string \<times> jval) list"

text \<open>
  The library functions the code calls and whose bodies are not part of the repository:
  Django's password hasher, its list of common passwords and its attribute-similarity
  test, \<open>hashlib.sha256(...).hexdigest()\<close>, \<open>datetime.isoformat()\<close>, and the reading of a
  value as a UUID that Django's \<open>UUIDField\<close> applies to the argument of a lookup by
  \<open>id\<close> (\<open>uuid_to_python\<close>: the UUID the value denotes, or nothing when the field
  refuses the value).
\<close>

record lib =
  lib_make_password :: "string \<Rightarrow> string"
  lib_check_password :: "string \<Rightarrow> string \<Rightarrow> bool"
  common_passwords :: "string list"
  too_similar :: "string \<Rightarrow> user \<Rightarrow> bool"
  sha256_hexdigest :: "string \<Rightarrow> string"
  isoformat :: "datetime \<Rightarrow> string"
  uuid_to_python :: "jval \<Rightarrow> uuid option"

text \<open>\<open>User.set_password\<close> and \<open>User.check_password\<close> of Django's \<open>AbstractBaseUser\<close>.\<close>

definition set_password :: "lib \<Rightarrow> user \<Rightarrow> string \<Rightarrow> user" where
  "set_password L u raw = u\<lparr>password := lib_make_password L raw\<rparr>"

definition check_password :: "lib \<Rightarrow> user \<Rightarrow> string \<Rightarrow> bool" where
  "check_password L u raw = lib_check_password L raw (password u)"

section \<open>The credential store\<close>

text \<open>
  The table \<open>identity_user\<close> is the list of its rows. \<open>objects_get\<close> is
  \<open>User.objects.get(id=...)\<close>, \<open>objects_filter_email_exists\<close> is
  \<open>User.objects.filter(email=...).exists()\<close>.
\<close>

definition objects_get :: "user list \<Rightarrow> uuid \<Rightarrow> user option" where
  "objects_get users i = find (\<lambda>u. id_field u = i) users"

definition objects_filter_email_exists :: "user list \<Rightarrow> string \<Rightarrow> bool" where
  "objects_filter_email_exists users em = list_ex (\<lambda>u. email u = em) users"

text \<open>
  \<open>User.update_last_login_ip\<close>: sets the field on the object and saves the columns
  \<open>last_login_ip\<close> and \<open>updated_at\<close> of its row; \<open>updated_at\<close> is an \<open>auto_now\<close>
  column, so the save writes the current time into it.
\<close>

definition save_last_login_ip :: "user list \<Rightarrow> user \<Rightarrow> user list" where
  "save_last_login_ip users u =
     map (\<lambda>r. if id_field r = id_field u
               then r\<lparr>last_login_ip := last_login_ip u, updated_at := updated_at u\<rparr>
               else r) users"

definition update_last_login_ip ::
  "user list \<Rightarrow> datetime \<Rightarrow> user \<Rightarrow> string \<Rightarrow> user \<times> user list" where
  "update_last_login_ip users now u ip =
     (let u' = u\<lparr>last_login_ip := Some ip, updated_at := now\<rparr>
      in (u', save_last_login_ip users u'))"

text \<open>
  Modelled from the spec: \<open>django.contrib.auth.authenticate\<close>, whose body is not part of
  the repository. The settings name no authentication backend, so Django's model backend
  answers: it looks the user up by the login principal (the email) and returns the user
  only if the password verifies and the user is active (``no active user matches the
  hashed credential comparison''); otherwise it returns nothing.
\<close>

definition authenticate :: "lib \<Rightarrow> user list \<Rightarrow> string \<Rightarrow> string \<Rightarrow> user option" where
  "authenticate L users uname pw =
     (case find (\<lambda>u. email u = uname) users of
        None \<Rightarrow> None
      | Some u \<Rightarrow> if check_password L u pw \<and> is_active u then Some u else None)"

section \<open>The authentication service\<close>

text \<open>\<open>if ip_address:\<close> holds for a supplied, non-empty address.\<close>

definition truthy :: "string option \<Rightarrow> bool" where
  "truthy ip = (case ip of None \<Rightarrow> False | Some s \<Rightarrow> s \<noteq> [])"

text \<open>
  \<open>AuthService.authenticate_user\<close>. The result is the exception raised, or the user
  returned together with the table after the call.
\<close>

definition authenticate_user ::
  "lib \<Rightarrow> user list \<Rightarrow> datetime \<Rightarrow> string \<Rightarrow> string \<Rightarrow> string option
     \<Rightarrow> exn + (user \<times> user list)" where
  "authenticate_user L users now em pw ip =
     (if em = [] \<or> pw = [] then Inl (AuthenticationError ''Email and password are required'')
      else
        (case authenticate L users (strip (lower em)) pw of
           None \<Rightarrow> Inl (AuthenticationError ''Invalid email or password'')
         | Some u \<Rightarrow>
             if \<not> is_active u then Inl (AuthenticationError ''User account is deactivated'')
             else if truthy ip then Inr (update_last_login_ip users now u (the ip))
             else Inr (u, users)))"

section \<open>The token codec\<close>

text \<open>
  Modelled from the spec: the Token Codec (\<open>jwt.encode\<close> and \<open>jwt.decode\<close> of the PyJWT
  library, not part of the repository). A token is a compact signed string: either a
  well-formed one, which carries the algorithm of its header, its payload and a
  signature that only the signing key verifies (\<open>Jws alg key payload\<close>), or any other
  string, carried with the complaint the decoder makes about it. Encoding writes the
  instants of the registered time fields as integer timestamps in seconds. The codec
  ``decodes and verifies signature and expiry'': a format or signature error first, then
  the expiry against the clock, which is exclusive (``token invalid at or after
  expiry'').
\<close>

datatype token = Jws string string payload | Malformed string

datatype jwt_error =
    ExpiredSignatureError
  | InvalidSignatureError
  | InvalidAlgorithmError
  | DecodeError string

fun str_jwt_error :: "jwt_error \<Rightarrow> string" where
  "str_jwt_error ExpiredSignatureError = ''Signature has expired''"
| "str_jwt_error InvalidSignatureError = ''Signature verification failed''"
| "str_jwt_error InvalidAlgorithmError = ''The specified alg value is not allowed''"
| "str_jwt_error (DecodeError m) = m"

definition encode_field :: "string \<times> jval \<Rightarrow> string \<times> jval" where
  "encode_field kv =
     (case kv of
        (k, Time t) \<Rightarrow> if k \<in> set [''exp'', ''iat'', ''nbf''] then (k, Num (to_timestamp t)) else (k, Time t)
      | (k, v) \<Rightarrow> (k, v))"

definition jwt_encode :: "payload \<Rightarrow> string \<Rightarrow> string \<Rightarrow> token" where
  "jwt_encode p key alg = Jws alg key (map encode_field p)"

fun jwt_decode :: "token \<Rightarrow> string \<Rightarrow> string list \<Rightarrow> datetime \<Rightarrow> jwt_error + payload" where
  "jwt_decode (Malformed m) key algs now = Inl (DecodeError m)"
| "jwt_decode (Jws alg k p) key algs now =
     (if alg \<notin> set algs then Inl InvalidAlgorithmError
      else if k \<noteq> key then Inl InvalidSignatureError
      else
        (case map_of p ''exp'' of
           None \<Rightarrow> Inr p
         | Some (Num e) \<Rightarrow> if e * 1000000 \<le> now then Inl ExpiredSignatureError else Inr p
         | Some _ \<Rightarrow> Inl (DecodeError ''Expiration Time claim (exp) must be an integer.'')))"

section \<open>Token issuance, validation and refresh\<close>

record settings =
  SECRET_KEY :: string
  JWT_SECRET_KEY :: string

record auth_service =
  secret_key :: string
  algorithm :: string
  access_token_lifetime :: timedelta
  refresh_token_lifetime :: timedelta

text \<open>\<open>AuthService.__init__\<close>.\<close>

definition AuthService_init :: "settings \<Rightarrow> exn + auth_service" where
  "AuthService_init st =
     (if SECRET_KEY st = [] then Inl (ValueError ''SECRET_KEY setting is required for JWT operations'')
      else Inr \<lparr>secret_key = JWT_SECRET_KEY st,
                algorithm = ''HS256'',
                access_token_lifetime = timedelta_hours 1,
                refresh_token_lifetime = timedelta_days 7\<rparr>)"

text \<open>\<open>AuthService._generate_token_id\<close>.\<close>

definition generate_token_id :: "auth_service \<Rightarrow> lib \<Rightarrow> string \<Rightarrow> datetime \<Rightarrow> string" where
  "generate_token_id self L user_id timestamp =
     take 16 (sha256_hexdigest L
       (user_id @ '':'' @ isoformat L timestamp @ '':'' @ secret_key self))"

text \<open>The dictionaries the service returns hold tokens, text and numbers.\<close>

datatype rval = Token token | Text string | Number int

type_synonym response = "(string \<times> rval) list"

text \<open>\<open>AuthService.create_tokens\<close>; \<open>now\<close> is the clock reading \<open>datetime.now(UTC)\<close>.\<close>

definition create_tokens :: "auth_service \<Rightarrow> lib \<Rightarrow> user \<Rightarrow> datetime \<Rightarrow> response" where
  "create_tokens self L u now =
     (let access_payload =
            [(''user_id'', Str (str_uuid (id_field u))),
             (''email'', Str (email u)),
             (''username'', Str (username u)),
             (''is_staff'', Bool (is_staff u)),
             (''is_superuser'', Bool (is_superuser u)),
             (''email_verified'', Bool (email_verified u)),
             (''exp'', Time (now + access_token_lifetime self)),
             (''iat'', Time now),
             (''type'', Str ''access'')];
          refresh_payload =
            [(''user_id'', Str (str_uuid (id_field u))),
             (''email'', Str (email u)),
             (''exp'', Time (now + refresh_token_lifetime self)),
             (''iat'', Time now),
             (''type'', Str ''refresh''),
             (''jti'', Str (generate_token_id self L (str_uuid (id_field u)) now))];
          access_token = jwt_encode access_payload (secret_key self) (algorithm self);
          refresh_token = jwt_encode refresh_payload (secret_key self) (algorithm self)
      in [(''access_token'', Token access_token),
          (''refresh_token'', Token refresh_token),
          (''token_type'', Text ''Bearer''),
          (''expires_in'', Number (int_total_seconds (access_token_lifetime self)))])"

text \<open>
  \<open>AuthService.validate_access_token\<close> and \<open>validate_refresh_token\<close>. The
  \<open>TokenError\<close> of a wrong type is raised inside the \<open>try\<close> and is none of the
  exceptions its handlers catch, so it leaves the method as it is.
\<close>

definition validate_access_token :: "auth_service \<Rightarrow> token \<Rightarrow> datetime \<Rightarrow> exn + payload" where
  "validate_access_token self tok now =
     (case jwt_decode tok (secret_key self) [algorithm self] now of
        Inr p \<Rightarrow>
          if map_of p ''type'' \<noteq> Some (Str ''access'') then Inl (TokenError ''Invalid token type'')
          else Inr p
      | Inl ExpiredSignatureError \<Rightarrow> Inl (TokenError ''Token has expired'')
      | Inl e \<Rightarrow> Inl (TokenError (''Invalid token: '' @ str_jwt_error e)))"

definition validate_refresh_token :: "auth_service \<Rightarrow> token \<Rightarrow> datetime \<Rightarrow> exn + payload" where
  "validate_refresh_token self tok now =
     (case jwt_decode tok (secret_key self) [algorithm self] now of
        Inr p \<Rightarrow>
          if map_of p ''type'' \<noteq> Some (Str ''refresh'') then Inl (TokenError ''Invalid token type'')
          else Inr p
      | Inl ExpiredSignatureError \<Rightarrow> Inl (TokenError ''Refresh token has expired'')
      | Inl e \<Rightarrow> Inl (TokenError (''Invalid refresh token: '' @ str_jwt_error e)))"

text \<open>
  \<open>User.objects.get(id=payload["user_id"])\<close> inside its \<open>try\<close>: a payload without
  the field raises \<open>KeyError\<close>; the \<open>UUIDField\<close> reads the value as a UUID and raises a
  \<open>ValidationError\<close> (its message says that the value is not a valid UUID) when it
  cannot; neither is caught. No row with the UUID read is \<open>User.DoesNotExist\<close>, which
  both callers turn into ``User not found''.
\<close>

definition get_user_by_payload :: "lib \<Rightarrow> user list \<Rightarrow> payload \<Rightarrow> exn + user" where
  "get_user_by_payload L users p =
     (case map_of p ''user_id'' of
        None \<Rightarrow> Inl (KeyError ''user_id'')
      | Some v \<Rightarrow>
          (case uuid_to_python L v of
             None \<Rightarrow> Inl (ValidationError [''is not a valid UUID.''])
           | Some i \<Rightarrow>
               (case objects_get users i of
                  None \<Rightarrow> Inl (AuthenticationError ''User not found'')
                | Some u \<Rightarrow> Inr u)))"

text \<open>\<open>AuthService.refresh_access_token\<close>.\<close>

definition refresh_access_token ::
  "auth_service \<Rightarrow> lib \<Rightarrow> user list \<Rightarrow> token \<Rightarrow> datetime \<Rightarrow> exn + response" where
  "refresh_access_token self L users refresh_token now =
     (case validate_refresh_token self refresh_token now of
        Inl e \<Rightarrow> Inl e
      | Inr p \<Rightarrow>
          (case get_user_by_payload L users p of
             Inl e \<Rightarrow> Inl e
           | Inr u \<Rightarrow>
               if \<not> is_active u then Inl (AuthenticationError ''User account is deactivated'')
               else
                 (let access_payload =
                        [(''user_id'', Str (str_uuid (id_field u))),
                         (''email'', Str (email u)),
                         (''username'', Str (username u)),
                         (''is_staff'', Bool (is_staff u)),
                         (''is_superuser'', Bool (is_superuser u)),
                         (''email_verified'', Bool (email_verified u)),
                         (''exp'', Time (now + access_token_lifetime self)),
                         (''iat'', Time now),
                         (''type'', Str ''access'')];
                      access_token = jwt_encode access_payload (secret_key self) (algorithm self)
                  in Inr [(''access_token'', Token access_token),
                          (''token_type'', Text ''Bearer''),
                          (''expires_in'', Number (int_total_seconds (access_token_lifetime self)))])))"

text \<open>\<open>AuthService.get_user_from_token\<close>.\<close>

definition get_user_from_token ::
  "auth_service \<Rightarrow> lib \<Rightarrow> user list \<Rightarrow> token \<Rightarrow> datetime \<Rightarrow> exn + user" where
  "get_user_from_token self L users tok now =
     (case validate_access_token self tok now of
        Inl e \<Rightarrow> Inl e
      | Inr p \<Rightarrow>
          (case get_user_by_payload L users p of
             Inl e \<Rightarrow> Inl e
           | Inr u \<Rightarrow>
               if \<not> is_active u then Inl (AuthenticationError ''User account is deactivated'')
               else Inr u))"

section \<open>Registration\<close>

text \<open>
  Modelled from the spec: \<open>validate_password\<close> of Django with the four validators the
  settings list under \<open>AUTH_PASSWORD_VALIDATORS\<close>, in their order; their bodies are not
  part of the repository. The similarity validator compares the password with the
  attributes of the user it is given and has nothing to compare without a user; the
  others reject a password shorter than 8 characters, one on the common-password list
  (compared in lower case, trimmed) and one that is entirely numeric. All complaints are
  raised together as one \<open>ValidationError\<close>.
\<close>

definition UserAttributeSimilarityValidator :: "lib \<Rightarrow> string \<Rightarrow> user option \<Rightarrow> string list" where
  "UserAttributeSimilarityValidator L pw usr =
     (case usr of
        None \<Rightarrow> []
      | Some u \<Rightarrow> if too_similar L pw u then [''The password is too similar to the user.''] else [])"

definition MinimumLengthValidator :: "string \<Rightarrow> string list" where
  "MinimumLengthValidator pw =
     (if length pw < 8
      then [''This password is too short. It must contain at least 8 characters.'']
      else [])"

definition CommonPasswordValidator :: "lib \<Rightarrow> string \<Rightarrow> string list" where
  "CommonPasswordValidator L pw =
     (if strip (lower pw) \<in> set (common_passwords L) then [''This password is too common.'']
      else [])"

definition NumericPasswordValidator :: "string \<Rightarrow> string list" where
  "NumericPasswordValidator pw =
     (if isdigit pw then [''This password is entirely numeric.''] else [])"

definition validate_password :: "lib \<Rightarrow> string \<Rightarrow> user option \<Rightarrow> exn + unit" where
  "validate_password L pw usr =
     (let errors = UserAttributeSimilarityValidator L pw usr @ MinimumLengthValidator pw @
                   CommonPasswordValidator L pw @ NumericPasswordValidator pw
      in if errors = [] then Inr () else Inl (ValidationError errors))"

text \<open>
  \<open>BaseUserManager.normalize_email\<close> of Django: the part after the last \<open>@\<close> of the
  trimmed address is put in lower case; an address without \<open>@\<close> is left as it is.
\<close>

definition normalize_email :: "string \<Rightarrow> string" where
  "normalize_email em =
     (let s = strip em
      in if CHR ''@'' \<in> set s
         then rev (tl (dropWhile (\<lambda>c. c \<noteq> CHR ''@'') (rev s))) @ ''@'' @
              lower (rev (takeWhile (\<lambda>c. c \<noteq> CHR ''@'') (rev s)))
         else em)"

text \<open>
  \<open>user.save()\<close> of a new object inserts a row; the table refuses a second row with the
  same primary key, email or username (the columns are unique).
\<close>

definition save_new :: "user list \<Rightarrow> user \<Rightarrow> exn + (user \<times> user list)" where
  "save_new users u =
     (if list_ex (\<lambda>r. id_field r = id_field u \<or> email r = email u \<or> username r = username u) users
      then Inl (IntegrityError ''duplicate key value violates unique constraint'')
      else Inr (u, users @ [u]))"

text \<open>
  \<open>UserManager.create_user_with_profile\<close>, without extra fields (no caller passes any).
  \<open>new_id\<close> is the value \<open>uuid.uuid4\<close> draws for the primary key; the other columns take
  the defaults of the model.
\<close>

definition create_user_with_profile ::
  "lib \<Rightarrow> user list \<Rightarrow> datetime \<Rightarrow> uuid \<Rightarrow> string \<Rightarrow> string \<Rightarrow> string \<Rightarrow> string
     \<Rightarrow> exn + (user \<times> user list)" where
  "create_user_with_profile L users now new_id em pw fname lname =
     (if em = [] then Inl (ValueError ''Users must have an email address'')
      else
        (let em' = normalize_email em;
             u = \<lparr>id_field = new_id, password = [], last_login = None, is_superuser = False,
                  username = em', first_name = fname, last_name = lname, email = em',
                  is_staff = False, is_active = True, date_joined = now,
                  email_verified = False, avatar_url = None, created_at = now,
                  updated_at = now, last_login_ip = None\<rparr>;
             u = set_password L u pw
         in save_new users u))"

text \<open>\<open>str(e)\<close> of an exception: its message; a \<open>KeyError\<close> shows its key in quotes.\<close>

fun str_exn :: "exn \<Rightarrow> string" where
  "str_exn (AuthenticationError m) = m"
| "str_exn (TokenError m) = m"
| "str_exn (ValidationError ms) = ''['' @ concat (map (\<lambda>m. [CHR 0x27] @ m @ [CHR 0x27]) ms) @ '']''"
| "str_exn (ValueError m) = m"
| "str_exn (KeyError m) = [CHR 0x27] @ m @ [CHR 0x27]"
| "str_exn (IntegrityError m) = m"

text \<open>\<open>AuthService.register_user\<close>, without extra fields.\<close>

definition register_user ::
  "lib \<Rightarrow> user list \<Rightarrow> datetime \<Rightarrow> uuid \<Rightarrow> string \<Rightarrow> string \<Rightarrow> string \<Rightarrow> string
     \<Rightarrow> exn + (user \<times> user list)" where
  "register_user L users now new_id em pw fname lname =
     (if em = [] \<or> pw = [] then Inl (ValidationError [''Email and password are required''])
      else
        (let em' = strip (lower em)
         in if objects_filter_email_exists users em'
            then Inl (ValidationError [''User with this email already exists''])
            else
              (case validate_password L pw None of
                 Inl e \<Rightarrow> Inl e
               | Inr _ \<Rightarrow>
                   (case create_user_with_profile L users now new_id em' pw fname lname of
                      Inr r \<Rightarrow> Inr r
                    | Inl e \<Rightarrow> Inl (AuthenticationError (''Failed to create user: '' @ str_exn e))))))"

section \<open>Operations that write a user\<close>

text \<open>
  \<open>User.verify_email\<close>: sets the flag on the object and saves the columns
  \<open>email_verified\<close> and \<open>updated_at\<close> of its row.
\<close>

definition save_email_verified :: "user list \<Rightarrow> user \<Rightarrow> user list" where
  "save_email_verified users u =
     map (\<lambda>r. if id_field r = id_field u
               then r\<lparr>email_verified := email_verified u, updated_at := updated_at u\<rparr>
               else r) users"

definition verify_email :: "user list \<Rightarrow> datetime \<Rightarrow> user \<Rightarrow> user \<times> user list" where
  "verify_email users now u =
     (let u' = u\<lparr>email_verified := True, updated_at := now\<rparr>
      in (u', save_email_verified users u'))"

text \<open>
  The endpoint \<open>verify_email\<close> of \<open>api/auth_endpoints.py\<close>: \<open>request_user\<close> is the user
  the bearer token resolved to, if any. The result is the status code and the body of
  the response, the user object and the table after the call.
\<close>

type_synonym http_response = "nat \<times> (string \<times> string) list"

definition verify_email_endpoint ::
  "user list \<Rightarrow> datetime \<Rightarrow> user option \<Rightarrow> http_response \<times> user option \<times> user list" where
  "verify_email_endpoint users now request_user =
     (case request_user of
        None \<Rightarrow> ((401, [(''error'', ''authentication_failed''), (''message'', ''Invalid user'')]),
                 None, users)
      | Some u \<Rightarrow>
          if email_verified u
          then ((400, [(''error'', ''already_verified''),
                       (''message'', ''Email is already verified'')]), Some u, users)
          else (let (u', users') = verify_email users now u
                in ((200, [(''message'', ''Email verified successfully'')]), Some u', users')))"

text \<open>
  The change form of the admin (\<open>admin.py\<close>): of the fields its \<open>fieldsets\<close> list, the
  form can edit those that are neither in \<open>readonly_fields\<close> nor made read-only by
  \<open>get_readonly_fields\<close> (\<open>email\<close>, for an existing user) nor the password hash, which
  the form of Django's user admin only displays. A \<open>change_form\<close> is a submitted form
  that validates, with the value of each editable column.
\<close>

record change_form =
  form_username :: string
  form_first_name :: string
  form_last_name :: string
  form_avatar_url :: "string option"
  form_is_active :: bool
  form_is_staff :: bool
  form_is_superuser :: bool
  form_email_verified :: bool

text \<open>
  What each writing operation of the repository does to the row of the user it acts on:
  the two methods of the model, the endpoints \<open>update_profile\<close> and \<open>change_password\<close>,
  the three actions of the admin (\<open>queryset.update\<close> writes the named column only) and
  the change form of the admin, which \<open>save_model\<close> saves with all its columns.
\<close>

datatype op =
    Op_verify_email
  | Op_update_last_login_ip string
  | Op_update_profile "string option" "string option" "string option"
  | Op_change_password string string
  | Op_admin_verify_emails
  | Op_admin_deactivate_users
  | Op_admin_activate_users
  | Op_admin_change_form change_form

fun apply_op :: "lib \<Rightarrow> datetime \<Rightarrow> op \<Rightarrow> user \<Rightarrow> user" where
  "apply_op L now Op_verify_email u = u\<lparr>email_verified := True, updated_at := now\<rparr>"
| "apply_op L now (Op_update_last_login_ip ip) u = u\<lparr>last_login_ip := Some ip, updated_at := now\<rparr>"
| "apply_op L now (Op_update_profile fname lname avatar) u =
     (let u = (case fname of None \<Rightarrow> u | Some v \<Rightarrow> u\<lparr>first_name := v\<rparr>);
          u = (case lname of None \<Rightarrow> u | Some v \<Rightarrow> u\<lparr>last_name := v\<rparr>);
          u = (case avatar of None \<Rightarrow> u | Some v \<Rightarrow> u\<lparr>avatar_url := Some v\<rparr>)
      in u\<lparr>updated_at := now\<rparr>)"
| "apply_op L now (Op_change_password current new) u =
     (if \<not> check_password L u current then u
      else
        (case validate_password L new (Some u) of
           Inl e \<Rightarrow> u
         | Inr _ \<Rightarrow> (set_password L u new)\<lparr>updated_at := now\<rparr>))"
| "apply_op L now Op_admin_verify_emails u = u\<lparr>email_verified := True\<rparr>"
| "apply_op L now Op_admin_deactivate_users u = u\<lparr>is_active := False\<rparr>"
| "apply_op L now Op_admin_activate_users u = u\<lparr>is_active := True\<rparr>"
| "apply_op L now (Op_admin_change_form f) u =
     u\<lparr>username := form_username f, first_name := form_first_name f,
       last_name := form_last_name f, avatar_url := form_avatar_url f,
       is_active := form_is_active f, is_staff := form_is_staff f,
       is_superuser := form_is_superuser f, email_verified := form_email_verified f,
       updated_at := now\<rparr>"

fun is_change_form :: "op \<Rightarrow> bool" where
  "is_change_form (Op_admin_change_form f) = True"
| "is_change_form x = False"

text \<open>A history of operations, each at its own time, applied to a user from left to right.\<close>

fun apply_ops :: "lib \<Rightarrow> (datetime \<times> op) list \<Rightarrow> user \<Rightarrow> user" where
  "apply_ops L [] u = u"
| "apply_ops L ((now, x) # xs) u = apply_ops L xs (apply_op L now x u)"

section \<open>Domain events\<close>

text \<open>
  The four frozen dataclasses of \<open>domain/user_events.py\<close>. The default of
  \<open>occurred_at\<close> is the expression \<open>datetime.now(UTC)\<close> in the class body, which Python
  evaluates when it executes the class statement, that is when the module is loaded:
  once for each of the four classes, one after the other. \<open>load_user_events\<close> is that
  load; \<open>clock n\<close> is the \<open>n\<close>-th reading of the clock during it.
\<close>

datatype event =
    UserRegistered uuid string string datetime
  | UserEmailVerified uuid string datetime
  | UserLoggedIn uuid string "string option" datetime
  | UserPasswordChanged uuid string datetime

fun occurred_at :: "event \<Rightarrow> datetime" where
  "occurred_at (UserRegistered a e f t) = t"
| "occurred_at (UserEmailVerified a e t) = t"
| "occurred_at (UserLoggedIn a e i t) = t"
| "occurred_at (UserPasswordChanged a e t) = t"

record user_events =
  UserRegistered_default :: datetime
  UserEmailVerified_default :: datetime
  UserLoggedIn_default :: datetime
  UserPasswordChanged_default :: datetime

definition load_user_events :: "(nat \<Rightarrow> datetime) \<Rightarrow> user_events" where
  "load_user_events clock =
     \<lparr>UserRegistered_default = clock 0,
      UserEmailVerified_default = clock 1,
      UserLoggedIn_default = clock 2,
      UserPasswordChanged_default = clock 3\<rparr>"

text \<open>The constructors; \<open>None\<close> for \<open>occurred_at\<close> is a call without that argument.\<close>

definition new_UserRegistered ::
  "user_events \<Rightarrow> uuid \<Rightarrow> string \<Rightarrow> string \<Rightarrow> datetime option \<Rightarrow> event" where
  "new_UserRegistered M a e f t =
     UserRegistered a e f (case t of None \<Rightarrow> UserRegistered_default M | Some v \<Rightarrow> v)"

definition new_UserEmailVerified ::
  "user_events \<Rightarrow> uuid \<Rightarrow> string \<Rightarrow> datetime option \<Rightarrow> event" where
  "new_UserEmailVerified M a e t =
     UserEmailVerified a e (case t of None \<Rightarrow> UserEmailVerified_default M | Some v \<Rightarrow> v)"

definition new_UserLoggedIn ::
  "user_events \<Rightarrow> uuid \<Rightarrow> string \<Rightarrow> string option \<Rightarrow> datetime option \<Rightarrow> event" where
  "new_UserLoggedIn M a e i t =
     UserLoggedIn a e i (case t of None \<Rightarrow> UserLoggedIn_default M | Some v \<Rightarrow> v)"

definition new_UserPasswordChanged ::
  "user_events \<Rightarrow> uuid \<Rightarrow> string \<Rightarrow> datetime option \<Rightarrow> event" where
  "new_UserPasswordChanged M a e t =
     UserPasswordChanged a e (case t of None \<Rightarrow> UserPasswordChanged_default M | Some v \<Rightarrow> v)"

section \<open>Example data\<close>

text \<open>
  A stand-in for the library's reading of a UUID that knows the spelling \<open>str\<close> gives a
  UUID only: 32 lower-case hexadecimal digits in groups of 8, 4, 4, 4 and 12.
\<close>

definition canonical_uuid_only :: "jval \<Rightarrow> uuid option" where
  "canonical_uuid_only v =
     (case v of
        Str s \<Rightarrow>
          if map (\<lambda>c. if c \<in> set ''0123456789abcdef'' then CHR ''x'' else c) s
               = ''xxxxxxxx-xxxx-xxxx-xxxx-xxxxxxxxxxxx''
          then Some (UUID s) else None
      | _ \<Rightarrow> None)"

definition demo_lib :: lib where
  "demo_lib = \<lparr>lib_make_password = (\<lambda>raw. ''hash$'' @ raw),
               lib_check_password = (\<lambda>raw enc. enc = ''hash$'' @ raw),
               common_passwords = [''password'', ''12345678'', ''qwertyuiop''],
               too_similar = (\<lambda>pw u. pw = email u \<or> pw = username u),
               sha256_hexdigest = (\<lambda>s. s),
               isoformat = (\<lambda>t. ''t''),
               uuid_to_python = canonical_uuid_only\<rparr>"

definition demo_settings :: settings where
  "demo_settings = \<lparr>SECRET_KEY = ''s3cret'', JWT_SECRET_KEY = ''s3cret''\<rparr>"

definition demo_service :: auth_service where
  "demo_service = \<lparr>secret_key = ''s3cret'', algorithm = ''HS256'',
                   access_token_lifetime = 3600000000,
                   refresh_token_lifetime = 604800000000\<rparr>"

definition alice :: user where
  "alice = \<lparr>id_field = UUID ''0a1b2c3d-1111-4aaa-8aaa-000000000001'', password = ''hash$wonderland9'', last_login = None,
            is_superuser = False, username = ''alice@x.com'', first_name = ''Alice'',
            last_name = ''L'', email = ''alice@x.com'', is_staff = False, is_active = True,
            date_joined = 1690000000000000, email_verified = False, avatar_url = None,
            created_at = 1690000000000000, updated_at = 1690000000000000,
            last_login_ip = None\<rparr>"

definition bob :: user where
  "bob = \<lparr>id_field = UUID ''0a1b2c3d-2222-4bbb-8bbb-000000000002'', password = ''hash$builder42'', last_login = None,
          is_superuser = False, username = ''bob@x.com'', first_name = ''Bob'',
          last_name = ''B'', email = ''bob@x.com'', is_staff = False, is_active = False,
          date_joined = 1695000000000000, email_verified = True, avatar_url = None,
          created_at = 1695000000000000, updated_at = 1695000000000000,
          last_login_ip = None\<rparr>"

definition carol :: user where
  "carol = \<lparr>id_field = UUID ''0a1b2c3d-3333-4ccc-8ccc-000000000003'', password = ''hash$carol@x.com'', last_login = None,
            is_superuser = False, username = ''carol@x.com'', first_name = ''Carol'',
            last_name = ''C'', email = ''carol@x.com'', is_staff = False, is_active = True,
            date_joined = 1700000000123456, email_verified = False, avatar_url = None,
            created_at = 1700000000123456, updated_at = 1700000000123456,
            last_login_ip = None\<rparr>"

definition demo_refresh_token :: token where
  "demo_refresh_token =
     Jws ''HS256'' ''s3cret''
       [(''user_id'', Str ''0a1b2c3d-1111-4aaa-8aaa-000000000001''), (''email'', Str ''alice@x.com''), (''exp'', Num 1700604800),
        (''iat'', Num 1700000000), (''type'', Str ''refresh''), (''jti'', Str ''0a1b2c3d-1111-4a'')]"

section \<open>Login of a deactivated account\<close>

lemma authenticate_active:
  "authenticate L users uname pw = Some u \<Longrightarrow> is_active u"
  by (auto simp: authenticate_def split: option.splits if_splits)

lemma authenticate_user_never_deactivated:
  "authenticate_user L users now em pw ip \<noteq> Inl (AuthenticationError ''User account is deactivated'')"
  using authenticate_active[of L users "strip (lower em)" pw]
  by (auto simp: authenticate_user_def split: option.splits)

text \<open>
  C1. A deactivated user who supplies the right password should be refused with
  ``User account is deactivated''. The lookup of \<open>authenticate_user\<close> already refuses
  inactive users, so Bob (inactive, password \<open>builder42\<close>) is refused with ``Invalid email
  or password'', the message of a wrong password.
\<close>

theorem authenticate_user_deactivated_bob:
  "check_password demo_lib bob ''builder42'' \<and> \<not> is_active bob \<and>
   authenticate_user demo_lib [alice, bob] 1700000000123456 ''bob@x.com'' ''builder42'' (Some ''10.0.0.1'')
     = Inl (AuthenticationError ''Invalid email or password'')"
  by (simp add: authenticate_user_def authenticate_def check_password_def demo_lib_def
      alice_def bob_def lower_def lower_char_def strip_def isspace_def)

section \<open>The service object\<close>

lemma AuthService_init_fields:
  "AuthService_init st = Inr self \<Longrightarrow>
     secret_key self = JWT_SECRET_KEY st \<and> algorithm self = ''HS256'' \<and>
     access_token_lifetime self = 3600000000 \<and> refresh_token_lifetime self = 604800000000"
  by (auto simp: AuthService_init_def timedelta_hours_def timedelta_days_def split: if_splits)

lemma demo_service_init: "AuthService_init demo_settings = Inr demo_service"
  by (simp add: AuthService_init_def demo_settings_def demo_service_def
      timedelta_hours_def timedelta_days_def)

lemma to_timestamp_add_hour: "to_timestamp (now + 3600000000) = to_timestamp now + 3600"
  by (simp add: to_timestamp_def)

lemma to_timestamp_add_week: "to_timestamp (now + 604800000000) = to_timestamp now + 604800"
  by (simp add: to_timestamp_def)

lemma now_before_expiry: "now < (to_timestamp now + 3600) * 1000000"
  unfolding to_timestamp_def by presburger

section \<open>Issuing and validating tokens\<close>

lemma access_token_valid:
  assumes init: "AuthService_init st = Inr self"
      and t: "t < (to_timestamp now + 3600) * 1000000"
  shows "\<exists>claims.
           validate_access_token self
             (jwt_encode
                [(''user_id'', Str (str_uuid (id_field u))),
                 (''email'', Str (email u)),
                 (''username'', Str (username u)),
                 (''is_staff'', Bool (is_staff u)),
                 (''is_superuser'', Bool (is_superuser u)),
                 (''email_verified'', Bool (email_verified u)),
                 (''exp'', Time (now + access_token_lifetime self)),
                 (''iat'', Time now),
                 (''type'', Str ''access'')] (secret_key self) (algorithm self)) t = Inr claims \<and>
           map_of claims ''user_id'' = Some (Str (str_uuid (id_field u))) \<and>
           map_of claims ''type'' = Some (Str ''access'')"
  using AuthService_init_fields[OF init] t
  by (simp add: validate_access_token_def jwt_encode_def encode_field_def to_timestamp_add_hour)

text \<open>
  C2. The access token that \<open>create_tokens\<close> issues validates at the instant of its
  creation, and at every instant before its expiry; the claims returned carry the text of
  the user's identifier under \<open>user_id\<close> and \<open>access\<close> under \<open>type\<close>.
\<close>

theorem create_validate_roundtrip:
  assumes init: "AuthService_init st = Inr self"
  shows "\<exists>tok. map_of (create_tokens self L u now) ''access_token'' = Some (Token tok) \<and>
           (\<exists>claims. validate_access_token self tok now = Inr claims \<and>
              map_of claims ''user_id'' = Some (Str (str_uuid (id_field u))) \<and>
              map_of claims ''type'' = Some (Str ''access'')) \<and>
           (\<forall>t. t < (to_timestamp now + 3600) * 1000000 \<longrightarrow>
              (\<exists>claims. validate_access_token self tok t = Inr claims \<and>
                 map_of claims ''user_id'' = Some (Str (str_uuid (id_field u))) \<and>
                 map_of claims ''type'' = Some (Str ''access'')))"
proof -
  let ?tok = "jwt_encode
                [(''user_id'', Str (str_uuid (id_field u))),
                 (''email'', Str (email u)),
                 (''username'', Str (username u)),
                 (''is_staff'', Bool (is_staff u)),
                 (''is_superuser'', Bool (is_superuser u)),
                 (''email_verified'', Bool (email_verified u)),
                 (''exp'', Time (now + access_token_lifetime self)),
                 (''iat'', Time now),
                 (''type'', Str ''access'')] (secret_key self) (algorithm self)"
  have 1: "map_of (create_tokens self L u now) ''access_token'' = Some (Token ?tok)"
    by (simp add: create_tokens_def)
  have 2: "\<exists>claims. validate_access_token self ?tok now = Inr claims \<and>
              map_of claims ''user_id'' = Some (Str (str_uuid (id_field u))) \<and>
              map_of claims ''type'' = Some (Str ''access'')"
    by (rule access_token_valid[OF init now_before_expiry])
  have 3: "\<forall>t. t < (to_timestamp now + 3600) * 1000000 \<longrightarrow>
              (\<exists>claims. validate_access_token self ?tok t = Inr claims \<and>
                 map_of claims ''user_id'' = Some (Str (str_uuid (id_field u))) \<and>
                 map_of claims ''type'' = Some (Str ''access''))"
    using access_token_valid[OF init] by blast
  from 1 2 3 show ?thesis by blast
qed

theorem create_validate_roundtrip_witness:
  "AuthService_init demo_settings = Inr demo_service \<and>
   (\<exists>tok. map_of (create_tokens demo_service demo_lib alice 1700000000123456) ''access_token''
             = Some (Token tok) \<and>
      (\<exists>claims. validate_access_token demo_service tok 1700000000123456 = Inr claims \<and>
         map_of claims ''user_id'' = Some (Str ''0a1b2c3d-1111-4aaa-8aaa-000000000001'') \<and>
         map_of claims ''type'' = Some (Str ''access'')) \<and>
      (\<exists>claims. validate_access_token demo_service tok 1700003599999999 = Inr claims \<and>
         map_of claims ''user_id'' = Some (Str ''0a1b2c3d-1111-4aaa-8aaa-000000000001'') \<and>
         map_of claims ''type'' = Some (Str ''access'')))"
proof -
  have t: "(1700003599999999::int) < (to_timestamp 1700000000123456 + 3600) * 1000000"
    by (simp add: to_timestamp_def)
  have a: "str_uuid (id_field alice) = ''0a1b2c3d-1111-4aaa-8aaa-000000000001''" by (simp add: alice_def)
  from create_validate_roundtrip[OF demo_service_init, of demo_lib alice 1700000000123456]
  obtain tok where
    "map_of (create_tokens demo_service demo_lib alice 1700000000123456) ''access_token''
       = Some (Token tok)"
    "\<exists>claims. validate_access_token demo_service tok 1700000000123456 = Inr claims \<and>
         map_of claims ''user_id'' = Some (Str ''0a1b2c3d-1111-4aaa-8aaa-000000000001'') \<and>
         map_of claims ''type'' = Some (Str ''access'')"
    "\<exists>claims. validate_access_token demo_service tok 1700003599999999 = Inr claims \<and>
         map_of claims ''user_id'' = Some (Str ''0a1b2c3d-1111-4aaa-8aaa-000000000001'') \<and>
         map_of claims ''type'' = Some (Str ''access'')"
    unfolding a using t by blast
  with demo_service_init show ?thesis by blast
qed

text \<open>
  C3. A token that decodes (right signature, not expired) and whose \<open>type\<close> is not the
  expected one is refused with the \<open>TokenError\<close> ``Invalid token type'', by either
  validator; claims that a validator returns always carry its own type.
\<close>

theorem validate_type_mismatch:
  assumes dec: "jwt_decode tok (secret_key self) [algorithm self] now = Inr p"
  shows "(map_of p ''type'' \<noteq> Some (Str ''access'') \<longrightarrow>
            validate_access_token self tok now = Inl (TokenError ''Invalid token type'')) \<and>
         (map_of p ''type'' \<noteq> Some (Str ''refresh'') \<longrightarrow>
            validate_refresh_token self tok now = Inl (TokenError ''Invalid token type'')) \<and>
         (\<forall>c. validate_access_token self tok now = Inr c \<longrightarrow>
            map_of c ''type'' = Some (Str ''access'')) \<and>
         (\<forall>c. validate_refresh_token self tok now = Inr c \<longrightarrow>
            map_of c ''type'' = Some (Str ''refresh''))"
  using dec by (auto simp: validate_access_token_def validate_refresh_token_def split: if_splits)

theorem validate_type_mismatch_witness:
  "jwt_decode demo_refresh_token (secret_key demo_service) [algorithm demo_service]
     1700000000123456
     = Inr [(''user_id'', Str ''0a1b2c3d-1111-4aaa-8aaa-000000000001''), (''email'', Str ''alice@x.com''), (''exp'', Num 1700604800),
        (''iat'', Num 1700000000), (''type'', Str ''refresh''), (''jti'', Str ''0a1b2c3d-1111-4a'')] \<and>
   validate_access_token demo_service demo_refresh_token 1700000000123456
     = Inl (TokenError ''Invalid token type'')"
proof -
  have d: "jwt_decode demo_refresh_token (secret_key demo_service) [algorithm demo_service]
     1700000000123456
     = Inr [(''user_id'', Str ''0a1b2c3d-1111-4aaa-8aaa-000000000001''), (''email'', Str ''alice@x.com''), (''exp'', Num 1700604800),
        (''iat'', Num 1700000000), (''type'', Str ''refresh''), (''jti'', Str ''0a1b2c3d-1111-4a'')]"
    by (simp add: demo_refresh_token_def demo_service_def)
  from validate_type_mismatch[OF d] d show ?thesis by simp
qed

lemma issued_tokens_not_interchangeable:
  assumes init: "AuthService_init st = Inr self"
  shows "\<exists>a r. map_of (create_tokens self L u now) ''access_token'' = Some (Token a) \<and>
           map_of (create_tokens self L u now) ''refresh_token'' = Some (Token r) \<and>
           (\<forall>t. t < (to_timestamp now + 3600) * 1000000 \<longrightarrow>
              validate_refresh_token self a t = Inl (TokenError ''Invalid token type'')) \<and>
           (\<forall>t. t < (to_timestamp now + 604800) * 1000000 \<longrightarrow>
              validate_access_token self r t = Inl (TokenError ''Invalid token type''))"
  using AuthService_init_fields[OF init]
  by (simp add: create_tokens_def validate_access_token_def validate_refresh_token_def
      jwt_encode_def encode_field_def to_timestamp_add_hour to_timestamp_add_week)

text \<open>
  C4. A token signed with the service's key whose expiry timestamp is at or before the
  clock is refused as expired by both validators, whatever its type; before its expiry,
  a token of the right type is accepted and its claims returned.
\<close>

theorem validate_expiry_boundary:
  assumes tok: "tok = Jws (algorithm self) (secret_key self) p"
      and exp: "map_of p ''exp'' = Some (Num e)"
  shows "(e * 1000000 \<le> now \<longrightarrow>
            validate_access_token self tok now = Inl (TokenError ''Token has expired'') \<and>
            validate_refresh_token self tok now = Inl (TokenError ''Refresh token has expired'')) \<and>
         (now < e * 1000000 \<and> map_of p ''type'' = Some (Str ''access'') \<longrightarrow>
            validate_access_token self tok now = Inr p) \<and>
         (now < e * 1000000 \<and> map_of p ''type'' = Some (Str ''refresh'') \<longrightarrow>
            validate_refresh_token self tok now = Inr p)"
  using tok exp by (simp add: validate_access_token_def validate_refresh_token_def)

theorem validate_expiry_boundary_witness:
  "demo_refresh_token = Jws (algorithm demo_service) (secret_key demo_service)
      [(''user_id'', Str ''0a1b2c3d-1111-4aaa-8aaa-000000000001''), (''email'', Str ''alice@x.com''), (''exp'', Num 1700604800),
       (''iat'', Num 1700000000), (''type'', Str ''refresh''), (''jti'', Str ''0a1b2c3d-1111-4a'')] \<and>
   validate_refresh_token demo_service demo_refresh_token 1700604800000000
     = Inl (TokenError ''Refresh token has expired'') \<and>
   validate_access_token demo_service demo_refresh_token 1700604800000000
     = Inl (TokenError ''Token has expired'') \<and>
   validate_refresh_token demo_service demo_refresh_token 1700604799999999
     = Inr [(''user_id'', Str ''0a1b2c3d-1111-4aaa-8aaa-000000000001''), (''email'', Str ''alice@x.com''), (''exp'', Num 1700604800),
       (''iat'', Num 1700000000), (''type'', Str ''refresh''), (''jti'', Str ''0a1b2c3d-1111-4a'')]"
proof -
  let ?p = "[(''user_id'', Str ''0a1b2c3d-1111-4aaa-8aaa-000000000001''), (''email'', Str ''alice@x.com''), (''exp'', Num 1700604800),
       (''iat'', Num 1700000000), (''type'', Str ''refresh''), (''jti'', Str ''0a1b2c3d-1111-4a'')]"
  have t: "demo_refresh_token = Jws (algorithm demo_service) (secret_key demo_service) ?p"
    by (simp add: demo_refresh_token_def demo_service_def)
  have e: "map_of ?p ''exp'' = Some (Num 1700604800)" by simp
  have y: "map_of ?p ''type'' = Some (Str ''refresh'')" by simp
  from validate_expiry_boundary[OF t e, of 1700604800000000]
       validate_expiry_boundary[OF t e, of 1700604799999999] t y
  show ?thesis by simp
qed

lemma wrong_key_always_invalid:
  assumes "k \<noteq> secret_key self"
  shows "validate_access_token self (Jws (algorithm self) k p) now
           = Inl (TokenError ''Invalid token: Signature verification failed'') \<and>
         validate_refresh_token self (Jws (algorithm self) k p) now
           = Inl (TokenError ''Invalid refresh token: Signature verification failed'')"
  using assms by (simp add: validate_access_token_def validate_refresh_token_def)

text \<open>
  The signature is checked before the expiry: a token signed with another key is refused
  for its signature, not for its expiry, also when its expiry has passed.
\<close>

theorem expired_wrong_key_counterexample:
  "map_of [(''exp'', Num 1700000000), (''type'', Str ''access'')] ''exp'' = Some (Num 1700000000) \<and>
   (1700000000 * 1000000 :: int) \<le> 1700000000000000 \<and>
   validate_access_token demo_service
     (Jws ''HS256'' ''another-key'' [(''exp'', Num 1700000000), (''type'', Str ''access'')])
     1700000000000000
     = Inl (TokenError ''Invalid token: Signature verification failed'') \<and>
   validate_access_token demo_service
     (Jws ''HS256'' ''another-key'' [(''exp'', Num 1700000000), (''type'', Str ''access'')])
     1700000000000000
     \<noteq> Inl (TokenError ''Token has expired'')"
  by (simp add: validate_access_token_def demo_service_def)

text \<open>
  C5. The two payloads \<open>create_tokens\<close> signs, field by field, and the rest of its
  answer. The access token lives one hour, the refresh token seven days; the fingerprint
  \<open>jti\<close> is the first 16 characters of the SHA-256 hex digest of the user's identifier,
  the issue time in ISO format and the secret, joined by colons.
\<close>

theorem create_tokens_payloads:
  assumes init: "AuthService_init st = Inr self"
  shows "\<exists>ap rp.
     create_tokens self L u now =
       [(''access_token'', Token (jwt_encode ap (JWT_SECRET_KEY st) ''HS256'')),
        (''refresh_token'', Token (jwt_encode rp (JWT_SECRET_KEY st) ''HS256'')),
        (''token_type'', Text ''Bearer''),
        (''expires_in'', Number 3600)] \<and>
     map fst ap = [''user_id'', ''email'', ''username'', ''is_staff'', ''is_superuser'',
                   ''email_verified'', ''exp'', ''iat'', ''type''] \<and>
     map_of ap ''user_id'' = Some (Str (str_uuid (id_field u))) \<and>
     map_of ap ''email'' = Some (Str (email u)) \<and>
     map_of ap ''username'' = Some (Str (username u)) \<and>
     map_of ap ''is_staff'' = Some (Bool (is_staff u)) \<and>
     map_of ap ''is_superuser'' = Some (Bool (is_superuser u)) \<and>
     map_of ap ''email_verified'' = Some (Bool (email_verified u)) \<and>
     map_of ap ''iat'' = Some (Time now) \<and>
     map_of ap ''exp'' = Some (Time (now + timedelta_hours 1)) \<and>
     map_of ap ''type'' = Some (Str ''access'') \<and>
     map fst rp = [''user_id'', ''email'', ''exp'', ''iat'', ''type'', ''jti''] \<and>
     map_of rp ''user_id'' = Some (Str (str_uuid (id_field u))) \<and>
     map_of rp ''email'' = Some (Str (email u)) \<and>
     map_of rp ''iat'' = Some (Time now) \<and>
     map_of rp ''exp'' = Some (Time (now + timedelta_days 7)) \<and>
     map_of rp ''type'' = Some (Str ''refresh'') \<and>
     map_of rp ''jti'' = Some (Str (take 16 (sha256_hexdigest L
        (str_uuid (id_field u) @ '':'' @ isoformat L now @ '':'' @ JWT_SECRET_KEY st))))"
proof -
  note f = AuthService_init_fields[OF init]
  let ?ap = "[(''user_id'', Str (str_uuid (id_field u))),
             (''email'', Str (email u)),
             (''username'', Str (username u)),
             (''is_staff'', Bool (is_staff u)),
             (''is_superuser'', Bool (is_superuser u)),
             (''email_verified'', Bool (email_verified u)),
             (''exp'', Time (now + access_token_lifetime self)),
             (''iat'', Time now),
             (''type'', Str ''access'')]"
  let ?rp = "[(''user_id'', Str (str_uuid (id_field u))),
             (''email'', Str (email u)),
             (''exp'', Time (now + refresh_token_lifetime self)),
             (''iat'', Time now),
             (''type'', Str ''refresh''),
             (''jti'', Str (generate_token_id self L (str_uuid (id_field u)) now))]"
  have c: "create_tokens self L u now =
       [(''access_token'', Token (jwt_encode ?ap (JWT_SECRET_KEY st) ''HS256'')),
        (''refresh_token'', Token (jwt_encode ?rp (JWT_SECRET_KEY st) ''HS256'')),
        (''token_type'', Text ''Bearer''),
        (''expires_in'', Number 3600)]"
    using f by (simp add: create_tokens_def int_total_seconds_def)
  have a: "map fst ?ap = [''user_id'', ''email'', ''username'', ''is_staff'', ''is_superuser'',
                   ''email_verified'', ''exp'', ''iat'', ''type''] \<and>
     map_of ?ap ''user_id'' = Some (Str (str_uuid (id_field u))) \<and>
     map_of ?ap ''email'' = Some (Str (email u)) \<and>
     map_of ?ap ''username'' = Some (Str (username u)) \<and>
     map_of ?ap ''is_staff'' = Some (Bool (is_staff u)) \<and>
     map_of ?ap ''is_superuser'' = Some (Bool (is_superuser u)) \<and>
     map_of ?ap ''email_verified'' = Some (Bool (email_verified u)) \<and>
     map_of ?ap ''iat'' = Some (Time now) \<and>
     map_of ?ap ''exp'' = Some (Time (now + timedelta_hours 1)) \<and>
     map_of ?ap ''type'' = Some (Str ''access'')"
    using f by (simp add: timedelta_hours_def)
  have r: "map fst ?rp = [''user_id'', ''email'', ''exp'', ''iat'', ''type'', ''jti''] \<and>
     map_of ?rp ''user_id'' = Some (Str (str_uuid (id_field u))) \<and>
     map_of ?rp ''email'' = Some (Str (email u)) \<and>
     map_of ?rp ''iat'' = Some (Time now) \<and>
     map_of ?rp ''exp'' = Some (Time (now + timedelta_days 7)) \<and>
     map_of ?rp ''type'' = Some (Str ''refresh'') \<and>
     map_of ?rp ''jti'' = Some (Str (take 16 (sha256_hexdigest L
        (str_uuid (id_field u) @ '':'' @ isoformat L now @ '':'' @ JWT_SECRET_KEY st))))"
    using f by (simp add: generate_token_id_def timedelta_days_def)
  show ?thesis
    apply (rule exI[of _ ?ap])
    apply (rule exI[of _ ?rp])
    apply (rule conjI[OF c])
    using a r apply blast
    done
qed

theorem create_tokens_payloads_witness:
  "AuthService_init demo_settings = Inr demo_service \<and>
   (\<exists>ap rp.
     create_tokens demo_service demo_lib alice 1700000000123456 =
       [(''access_token'', Token (jwt_encode ap ''s3cret'' ''HS256'')),
        (''refresh_token'', Token (jwt_encode rp ''s3cret'' ''HS256'')),
        (''token_type'', Text ''Bearer''),
        (''expires_in'', Number 3600)] \<and>
     map_of ap ''iat'' = Some (Time 1700000000123456) \<and>
     map_of ap ''exp'' = Some (Time 1700003600123456) \<and>
     map_of rp ''exp'' = Some (Time 1700604800123456) \<and>
     map_of rp ''jti'' = Some (Str ''0a1b2c3d-1111-4a''))"
proof -
  have s: "JWT_SECRET_KEY demo_settings = ''s3cret''" "str_uuid (id_field alice) = ''0a1b2c3d-1111-4aaa-8aaa-000000000001''"
    "isoformat demo_lib 1700000000123456 = ''t''" "sha256_hexdigest demo_lib = (\<lambda>s. s)"
    by (simp_all add: demo_settings_def alice_def demo_lib_def)
  have d: "(1700000000123456::int) + timedelta_hours 1 = 1700003600123456"
    "(1700000000123456::int) + timedelta_days 7 = 1700604800123456"
    by (simp_all add: timedelta_hours_def timedelta_days_def)
  from create_tokens_payloads[OF demo_service_init, of demo_lib alice 1700000000123456]
  obtain ap rp where
    "create_tokens demo_service demo_lib alice 1700000000123456 =
       [(''access_token'', Token (jwt_encode ap ''s3cret'' ''HS256'')),
        (''refresh_token'', Token (jwt_encode rp ''s3cret'' ''HS256'')),
        (''token_type'', Text ''Bearer''),
        (''expires_in'', Number 3600)]"
    "map_of ap ''iat'' = Some (Time 1700000000123456)"
    "map_of ap ''exp'' = Some (Time 1700003600123456)"
    "map_of rp ''exp'' = Some (Time 1700604800123456)"
    "map_of rp ''jti'' = Some (Str ''0a1b2c3d-1111-4a'')"
    unfolding s d by auto
  with demo_service_init show ?thesis by blast
qed

section \<open>Refreshing an access token\<close>

lemma validate_refresh_token_signed:
  assumes "map_of p ''exp'' = Some (Num e)" and "now < e * 1000000"
      and "map_of p ''type'' = Some (Str ''refresh'')"
  shows "validate_refresh_token self (Jws (algorithm self) (secret_key self) p) now = Inr p"
  using assms by (simp add: validate_refresh_token_def)

lemma refresh_access_token_not_a_uuid:
  assumes "map_of p ''exp'' = Some (Num e)" and "now < e * 1000000"
      and "map_of p ''type'' = Some (Str ''refresh'')"
      and "map_of p ''user_id'' = Some v" and "uuid_to_python L v = None"
  shows "refresh_access_token self L users (Jws (algorithm self) (secret_key self) p) now
           = Inl (ValidationError [''is not a valid UUID.''])"
  using assms
  by (simp add: refresh_access_token_def validate_refresh_token_signed get_user_by_payload_def)



text \<open>
  The refresh token \<open>create_tokens\<close> issues for a user carries the text of the user's
  identifier; where the lookup reads that text back as the identifier, the token leads
  \<open>refresh_access_token\<close> to the row with that identifier.
\<close>

lemma refresh_issued_token:
  assumes init: "AuthService_init st = Inr self"
      and read: "uuid_to_python L (Str (str_uuid (id_field u0))) = Some (id_field u0)"
      and t: "t < (to_timestamp now + 604800) * 1000000"
      and row: "objects_get users (id_field u0) = Some u" and act: "is_active u"
  shows "\<exists>rt r. map_of (create_tokens self L u0 now) ''refresh_token'' = Some (Token rt) \<and>
           refresh_access_token self L users rt t = Inr r \<and>
           map_of r ''access_token'' = map_of (create_tokens self L u t) ''access_token''"
  using AuthService_init_fields[OF init] read t row act
  by (simp add: create_tokens_def refresh_access_token_def validate_refresh_token_def
      get_user_by_payload_def jwt_encode_def encode_field_def to_timestamp_add_week)

section \<open>Registration\<close>

lemma register_user_ignores_similarity:
  "register_user (L\<lparr>too_similar := f\<rparr>) users now i em pw fname lname
     = register_user L users now i em pw fname lname"
  by (simp add: register_user_def validate_password_def UserAttributeSimilarityValidator_def
      CommonPasswordValidator_def create_user_with_profile_def set_password_def Let_def)

lemma validate_password_None:
  "validate_password L pw None = Inr () \<longleftrightarrow>
     \<not> length pw < 8 \<and> strip (lower pw) \<notin> set (common_passwords L) \<and> \<not> isdigit pw"
  by (simp add: validate_password_def UserAttributeSimilarityValidator_def Let_def
      MinimumLengthValidator_def CommonPasswordValidator_def NumericPasswordValidator_def)

lemma validate_password_cases:
  "validate_password L pw usr = Inr () \<or> (\<exists>ms. validate_password L pw usr = Inl (ValidationError ms))"
  by (simp add: validate_password_def Let_def)

lemma register_user_ValidationError_iff:
  "(\<exists>ms. register_user L users now i em pw fname lname = Inl (ValidationError ms)) \<longleftrightarrow>
     em = [] \<or> pw = [] \<or> objects_filter_email_exists users (strip (lower em)) \<or>
     length pw < 8 \<or> strip (lower pw) \<in> set (common_passwords L) \<or> isdigit pw"
proof (cases "em = [] \<or> pw = [] \<or> objects_filter_email_exists users (strip (lower em))")
  case True
  then show ?thesis by (auto simp: register_user_def)
next
  case False
  show ?thesis
  proof (cases "validate_password L pw None = Inr ()")
    case True
    with False have "\<not> (\<exists>ms. register_user L users now i em pw fname lname = Inl (ValidationError ms))"
      by (auto simp: register_user_def split: sum.splits)
    with True False show ?thesis using validate_password_None[of L pw] by blast
  next
    case no: False
    then obtain ms where "validate_password L pw None = Inl (ValidationError ms)"
      using validate_password_cases[of L pw None] by blast
    with False have "register_user L users now i em pw fname lname = Inl (ValidationError ms)"
      by (simp add: register_user_def)
    with no show ?thesis using validate_password_None[of L pw] by blast
  qed
qed

lemma lower_char_idem: "lower_char (lower_char c) = lower_char c"
proof -
  have "of_char c < (256::nat)" by simp
  then show ?thesis
    by (auto simp: lower_char_def Let_def)
qed

lemma lower_idem: "lower (lower s) = lower s"
  by (simp add: lower_def lower_char_idem)

lemma strip_subset: "set (strip s) \<subseteq> set s"
proof -
  have "set (strip s) = set (dropWhile isspace (rev (dropWhile isspace s)))"
    by (simp add: strip_def)
  also have "\<dots> \<subseteq> set (rev (dropWhile isspace s))"
    by (meson set_dropWhileD subsetI)
  also have "\<dots> \<subseteq> set s"
    using set_dropWhileD by fastforce
  finally show ?thesis .
qed

lemma strip_idem: "strip (strip s) = strip s"
proof -
  let ?d = "dropWhile isspace s"
  let ?t = "rev (dropWhile isspace (rev ?d))"
  have t: "strip s = ?t" by (simp add: strip_def)
  have d: "?d = ?t @ rev (takeWhile isspace (rev ?d))"
    by (metis rev_append rev_rev_ident takeWhile_dropWhile_id)
  have front: "dropWhile isspace ?t = ?t"
  proof (cases "?t = []")
    case True
    show ?thesis unfolding True by simp
  next
    case False
    then obtain x xs where c: "?t = x # xs" by (cases ?t) auto
    with d have "hd ?d = x" by (metis hd_append2 list.sel(1) list.distinct(1))
    moreover from c d have "?d \<noteq> []" by (metis append_is_Nil_conv list.distinct(1))
    ultimately have "\<not> isspace x" using hd_dropWhile[of isspace s] by blast
    then show ?thesis unfolding c by simp
  qed
  have "strip ?t = rev (dropWhile isspace (rev ?t))"
    unfolding strip_def front ..
  also have "\<dots> = ?t" by (simp add: dropWhile_idem)
  finally show ?thesis unfolding t .
qed

lemma rsplit_at_join:
  assumes "CHR ''@'' \<in> set s"
  shows "rev (tl (dropWhile (\<lambda>c. c \<noteq> CHR ''@'') (rev s))) @ ''@'' @
         rev (takeWhile (\<lambda>c. c \<noteq> CHR ''@'') (rev s)) = s"
proof -
  let ?Q = "\<lambda>c. c \<noteq> CHR ''@''"
  let ?dw = "dropWhile ?Q (rev s)"
  from assms have ne: "?dw \<noteq> []" by (simp add: dropWhile_eq_Nil_conv)
  then have "\<not> ?Q (hd ?dw)" by (rule hd_dropWhile)
  with ne have dw: "?dw = CHR ''@'' # tl ?dw" by (cases ?dw) auto
  have "rev s = takeWhile ?Q (rev s) @ ?dw" by simp
  then have "s = rev ?dw @ rev (takeWhile ?Q (rev s))"
    by (metis rev_append rev_rev_ident)
  also have "rev ?dw = rev (tl ?dw) @ ''@''"
    by (subst dw) simp
  finally show ?thesis by simp
qed

lemma normalize_email_normalized:
  "normalize_email (strip (lower em)) = strip (lower em)"
proof -
  let ?e = "strip (lower em)"
  have s: "strip ?e = ?e" by (rule strip_idem)
  have low: "\<forall>c \<in> set ?e. lower_char c = c"
  proof
    fix c assume "c \<in> set ?e"
    then have "c \<in> set (lower em)" using strip_subset by blast
    then obtain d where "c = lower_char d" by (auto simp: lower_def)
    then show "lower_char c = c" by (simp add: lower_char_idem)
  qed
  show ?thesis
  proof (cases "CHR ''@'' \<in> set ?e")
    case False
    then show ?thesis by (simp add: normalize_email_def s)
  next
    case True
    let ?tw = "takeWhile (\<lambda>c. c \<noteq> CHR ''@'') (rev ?e)"
    have "set (rev ?tw) \<subseteq> set ?e" using set_takeWhileD by fastforce
    with low have "lower (rev ?tw) = rev ?tw"
      unfolding lower_def by (intro map_idI) blast
    with True rsplit_at_join[OF True] show ?thesis
      by (simp add: normalize_email_def s)
  qed
qed

lemma register_user_success:
  assumes "register_user L users now i em pw fname lname = Inr (u, users')"
  shows "email u = strip (lower em) \<and> username u = strip (lower em) \<and>
         password u = lib_make_password L pw \<and> first_name u = fname \<and> last_name u = lname \<and>
         id_field u = i \<and> is_active u \<and> \<not> email_verified u \<and> users' = users @ [u]"
  using assms
  by (auto simp: register_user_def create_user_with_profile_def save_new_def set_password_def
      normalize_email_normalized Let_def split: if_splits sum.splits)

lemma register_user_failures:
  "(\<exists>r. register_user L users now i em pw fname lname = Inr r) \<or>
   (\<exists>ms. register_user L users now i em pw fname lname = Inl (ValidationError ms)) \<or>
   (\<exists>m. register_user L users now i em pw fname lname
           = Inl (AuthenticationError (''Failed to create user: '' @ m)))"
  using validate_password_cases[of L pw None]
  by (auto simp: register_user_def Let_def split: sum.splits)

text \<open>
  C6. A password that the similarity rule of the policy rejects should fail registration
  with a \<open>ValidationError\<close>. Registration validates the password without a user, so the
  rule has nothing to compare: Carol registers with her email address as her password,
  although the same validation with her user at hand (as the change of a password runs
  it) rejects that password.
\<close>

theorem register_user_similar_password_carol:
  "register_user demo_lib [alice, bob] 1700000000123456 (UUID ''0a1b2c3d-3333-4ccc-8ccc-000000000003'')
     ''carol@x.com'' ''carol@x.com'' ''Carol'' ''C''
     = Inr (carol, [alice, bob, carol]) \<and>
   too_similar demo_lib ''carol@x.com'' carol \<and>
   validate_password demo_lib ''carol@x.com'' (Some carol)
     = Inl (ValidationError [''The password is too similar to the user.''])"
  by (simp add: register_user_def objects_filter_email_exists_def validate_password_def
      UserAttributeSimilarityValidator_def MinimumLengthValidator_def
      CommonPasswordValidator_def NumericPasswordValidator_def isdigit_def isdigit_char_def
      create_user_with_profile_def normalize_email_def set_password_def save_new_def
      demo_lib_def alice_def bob_def carol_def lower_def lower_char_def strip_def isspace_def
      Let_def)

section \<open>The verified flag\<close>

lemma apply_op_keeps_verified:
  "\<not> is_change_form x \<Longrightarrow> email_verified u \<Longrightarrow> email_verified (apply_op L now x u)"
  by (cases x) (auto simp: set_password_def Let_def split: option.splits sum.splits)

lemma apply_ops_keeps_verified:
  "list_all (\<lambda>tx. \<not> is_change_form (snd tx)) xs \<Longrightarrow> email_verified u \<Longrightarrow>
     email_verified (apply_ops L xs u)"
proof (induction xs arbitrary: u)
  case Nil
  then show ?case by simp
next
  case (Cons x xs)
  obtain now y where x: "x = (now, y)" by (cases x)
  from Cons.prems x have y: "\<not> is_change_form y"
    and rest: "list_all (\<lambda>tx. \<not> is_change_form (snd tx)) xs" by simp_all
  from y Cons.prems(2) have "email_verified (apply_op L now y u)"
    by (rule apply_op_keeps_verified)
  with rest have "email_verified (apply_ops L xs (apply_op L now y u))"
    by (rule Cons.IH)
  with x show ?case by simp
qed

lemma save_email_verified_keeps:
  "email_verified u \<Longrightarrow>
     list_all2 (\<lambda>r r'. email_verified r \<longrightarrow> email_verified r') users (save_email_verified users u)"
  by (induction users) (auto simp: save_email_verified_def)

lemma save_last_login_ip_flags:
  "map email_verified (save_last_login_ip users u) = map email_verified users"
  by (induction users) (auto simp: save_last_login_ip_def)

lemma authenticate_user_flags:
  "authenticate_user L users now em pw ip = Inr (u', users') \<Longrightarrow>
     map email_verified users' = map email_verified users"
  by (auto simp: authenticate_user_def update_last_login_ip_def Let_def save_last_login_ip_flags
      split: if_splits option.splits)

text \<open>
  C8. The change form of the admin writes the verified flag as submitted, so it can take
  the flag back. No other writing operation does: a verified user stays verified under
  every history of operations without that form, the endpoint \<open>verify_email\<close> leaves every
  verified row verified, and a login does not touch the flag of any row. On a user who is
  already verified the endpoint answers 400 \<open>already_verified\<close> and changes nothing; so
  does a second call after a first one.
\<close>

theorem email_verified_monotone:
  "(email_verified u \<and> list_all (\<lambda>tx. \<not> is_change_form (snd tx)) xs \<longrightarrow>
      email_verified (apply_ops L xs u)) \<and>
   email_verified (apply_op L now (Op_admin_change_form f) u) = form_email_verified f \<and>
   (email_verified u \<longrightarrow>
      verify_email_endpoint users now (Some u)
        = ((400, [(''error'', ''already_verified''), (''message'', ''Email is already verified'')]),
           Some u, users)) \<and>
   (\<forall>resp u' users'. verify_email_endpoint users now (Some u) = (resp, Some u', users') \<longrightarrow>
      email_verified u' \<and>
      list_all2 (\<lambda>r r'. email_verified r \<longrightarrow> email_verified r') users users' \<and>
      verify_email_endpoint users' now' (Some u')
        = ((400, [(''error'', ''already_verified''), (''message'', ''Email is already verified'')]),
           Some u', users')) \<and>
   (\<forall>u' users'. authenticate_user L users now em pw ip = Inr (u', users') \<longrightarrow>
      map email_verified users' = map email_verified users)"
proof -
  have 1: "email_verified u \<and> list_all (\<lambda>tx. \<not> is_change_form (snd tx)) xs \<longrightarrow>
      email_verified (apply_ops L xs u)"
    using apply_ops_keeps_verified by blast
  have 0: "email_verified (apply_op L now (Op_admin_change_form f) u) = form_email_verified f"
    by simp
  have 2: "email_verified v \<longrightarrow>
      verify_email_endpoint us t (Some v)
        = ((400, [(''error'', ''already_verified''), (''message'', ''Email is already verified'')]),
           Some v, us)" for v us t
    by (simp add: verify_email_endpoint_def)
  have 3: "email_verified u' \<and>
      list_all2 (\<lambda>r r'. email_verified r \<longrightarrow> email_verified r') users users'"
    if "verify_email_endpoint users now (Some u) = (resp, Some u', users')" for resp u' users'
  proof (cases "email_verified u")
    case True
    with that have "u' = u" "users' = users" by (simp_all add: verify_email_endpoint_def)
    with True show ?thesis by (simp add: list_all2_same)
  next
    case False
    with that have u': "u' = u\<lparr>email_verified := True, updated_at := now\<rparr>"
      and us: "users' = save_email_verified users u'"
      by (auto simp: verify_email_endpoint_def verify_email_def Let_def)
    have "email_verified u'" using u' by simp
    then show ?thesis using save_email_verified_keeps[of u' users] us by simp
  qed
  have 4: "\<forall>u' users'. authenticate_user L users now em pw ip = Inr (u', users') \<longrightarrow>
      map email_verified users' = map email_verified users"
    using authenticate_user_flags by blast
  from 0 1 2 3 4 show ?thesis by blast
qed

theorem email_verified_monotone_witness:
  "\<not> email_verified alice \<and> email_verified bob \<and>
   email_verified (apply_ops demo_lib
      [(1700000000000005, Op_update_profile (Some ''Bobby'') None None),
       (1700000000000006, Op_admin_deactivate_users),
       (1700000000000007, Op_update_last_login_ip ''10.0.0.1'')] bob) \<and>
   verify_email_endpoint [alice, bob] 1700000000000007 (Some bob)
     = ((400, [(''error'', ''already_verified''), (''message'', ''Email is already verified'')]),
        Some bob, [alice, bob]) \<and>
   verify_email_endpoint [alice, bob] 1700000000000007 (Some alice)
     = ((200, [(''message'', ''Email verified successfully'')]),
        Some (alice\<lparr>email_verified := True, updated_at := 1700000000000007\<rparr>),
        [alice\<lparr>email_verified := True, updated_at := 1700000000000007\<rparr>, bob]) \<and>
   verify_email_endpoint [alice\<lparr>email_verified := True, updated_at := 1700000000000007\<rparr>, bob]
       1700000000000008
       (Some (alice\<lparr>email_verified := True, updated_at := 1700000000000007\<rparr>))
     = ((400, [(''error'', ''already_verified''), (''message'', ''Email is already verified'')]),
        Some (alice\<lparr>email_verified := True, updated_at := 1700000000000007\<rparr>),
        [alice\<lparr>email_verified := True, updated_at := 1700000000000007\<rparr>, bob])"
proof -
  let ?xs = "[(1700000000000005, Op_update_profile (Some ''Bobby'') None None),
       (1700000000000006, Op_admin_deactivate_users),
       (1700000000000007, Op_update_last_login_ip ''10.0.0.1'')]"
  have a: "\<not> email_verified alice" and b: "email_verified bob"
    by (simp_all add: alice_def bob_def)
  have c: "list_all (\<lambda>tx. \<not> is_change_form (snd tx)) ?xs" by simp
  have e: "verify_email_endpoint [alice, bob] 1700000000000007 (Some alice)
     = ((200, [(''message'', ''Email verified successfully'')]),
        Some (alice\<lparr>email_verified := True, updated_at := 1700000000000007\<rparr>),
        [alice\<lparr>email_verified := True, updated_at := 1700000000000007\<rparr>, bob])"
    by (simp add: verify_email_endpoint_def verify_email_def save_email_verified_def
        alice_def bob_def Let_def)
  let ?f = "\<lparr>form_username = ''bob@x.com'', form_first_name = ''Bob'', form_last_name = ''B'',
        form_avatar_url = None, form_is_active = False, form_is_staff = False,
        form_is_superuser = False, form_email_verified = True\<rparr>"
  note m = email_verified_monotone[of bob ?xs demo_lib 1700000000000007 ?f
      "[alice, bob]" 1700000000000008 "[]" "[]" None]
  note n = email_verified_monotone[of alice "[]" demo_lib 1700000000000007 ?f
      "[alice, bob]" 1700000000000008 "[]" "[]" None]
  from m b c have 1: "email_verified (apply_ops demo_lib ?xs bob)" by blast
  from m b have 2: "verify_email_endpoint [alice, bob] 1700000000000007 (Some bob)
     = ((400, [(''error'', ''already_verified''), (''message'', ''Email is already verified'')]),
        Some bob, [alice, bob])" by blast
  from n e have 3: "verify_email_endpoint [alice\<lparr>email_verified := True, updated_at := 1700000000000007\<rparr>, bob]
       1700000000000008
       (Some (alice\<lparr>email_verified := True, updated_at := 1700000000000007\<rparr>))
     = ((400, [(''error'', ''already_verified''), (''message'', ''Email is already verified'')]),
        Some (alice\<lparr>email_verified := True, updated_at := 1700000000000007\<rparr>),
        [alice\<lparr>email_verified := True, updated_at := 1700000000000007\<rparr>, bob])" by blast
  from a b 1 2 e 3 show ?thesis by blast
qed

text \<open>
  Bob is verified; an admin who saves the change form of his user with the box
  \<open>email_verified\<close> unticked leaves him unverified.
\<close>

theorem email_verified_change_form_counterexample:
  "email_verified bob \<and>
   \<not> email_verified
       (apply_op demo_lib 1700000000000009
          (Op_admin_change_form
             \<lparr>form_username = ''bob@x.com'', form_first_name = ''Bob'', form_last_name = ''B'',
              form_avatar_url = None, form_is_active = False, form_is_staff = False,
              form_is_superuser = False, form_email_verified = False\<rparr>) bob)"
  by (simp add: bob_def)

section \<open>What a login writes\<close>

lemma save_last_login_ip_nth:
  assumes "k < length users"
  shows "save_last_login_ip users u ! k =
           (if id_field (users ! k) = id_field u
            then (users ! k)\<lparr>last_login_ip := last_login_ip u, updated_at := updated_at u\<rparr>
            else users ! k)"
  using assms by (simp add: save_last_login_ip_def)

lemma authenticate_Some_find:
  "authenticate L users uname pw = Some u \<Longrightarrow>
     find (\<lambda>r. email r = uname) users = Some u \<and> check_password L u pw \<and> is_active u"
  by (auto simp: authenticate_def split: option.splits if_splits)

text \<open>
  C9. A successful login returns the first row of the table whose email is the
  normalized address, a row whose password verifies and that is active. With an address
  supplied the returned user carries the address and the time of the call in
  \<open>last_login_ip\<close> and \<open>updated_at\<close> and is otherwise that row; in the table the
  rows with the primary key of that user get the same two values and keep every other
  column, and every other row is untouched. With no address supplied (or an empty one)
  the user and the table are returned as they were.
\<close>

theorem authenticate_user_frame:
  assumes ok: "authenticate_user L users now em pw ip = Inr (u', users')"
  shows "\<exists>u. find (\<lambda>r. email r = strip (lower em)) users = Some u \<and>
           check_password L u pw \<and> is_active u \<and>
           u'\<lparr>last_login_ip := last_login_ip u, updated_at := updated_at u\<rparr> = u \<and>
           length users' = length users \<and>
           (\<forall>k < length users.
              (id_field (users ! k) \<noteq> id_field u \<longrightarrow> users' ! k = users ! k) \<and>
              (users' ! k)\<lparr>last_login_ip := last_login_ip (users ! k),
                           updated_at := updated_at (users ! k)\<rparr> = users ! k) \<and>
           (\<not> truthy ip \<longrightarrow> u' = u \<and> users' = users) \<and>
           (truthy ip \<longrightarrow>
              u' = u\<lparr>last_login_ip := ip, updated_at := now\<rparr> \<and>
              (\<forall>k < length users. id_field (users ! k) = id_field u \<longrightarrow>
                 users' ! k = (users ! k)\<lparr>last_login_ip := ip, updated_at := now\<rparr>))"
proof -
  from ok obtain u where a: "authenticate L users (strip (lower em)) pw = Some u"
    by (auto simp: authenticate_user_def split: if_splits option.splits)
  note f = authenticate_Some_find[OF a]
  show ?thesis
  proof (cases "truthy ip")
    case True
    then obtain s where s: "ip = Some s" by (auto simp: truthy_def split: option.splits)
    from ok a True s have u': "u' = u\<lparr>last_login_ip := Some s, updated_at := now\<rparr>"
      and us: "users' = save_last_login_ip users u'"
      by (auto simp: authenticate_user_def update_last_login_ip_def Let_def split: if_splits)
    have len: "length users' = length users" by (simp add: us save_last_login_ip_def)
    have rows: "users' ! k =
           (if id_field (users ! k) = id_field u
            then (users ! k)\<lparr>last_login_ip := Some s, updated_at := now\<rparr>
            else users ! k)" if "k < length users" for k
      using save_last_login_ip_nth[OF that, of u'] by (simp add: us u')
    show ?thesis
      apply (rule exI[of _ u])
      using f True s u' len rows by simp
  next
    case False
    with ok a have "u' = u" "users' = users"
      by (auto simp: authenticate_user_def split: if_splits)
    with False f show ?thesis by (intro exI[of _ u]) simp
  qed
qed

theorem authenticate_user_frame_witness:
  "authenticate_user demo_lib [alice, bob, carol] 1700000000123456 '' Alice@X.com''
       ''wonderland9'' (Some ''10.0.0.1'')
     = Inr (alice\<lparr>last_login_ip := Some ''10.0.0.1'', updated_at := 1700000000123456\<rparr>,
            [alice\<lparr>last_login_ip := Some ''10.0.0.1'', updated_at := 1700000000123456\<rparr>,
             bob, carol]) \<and>
   find (\<lambda>r. email r = strip (lower '' Alice@X.com'')) [alice, bob, carol] = Some alice \<and>
   check_password demo_lib alice ''wonderland9'' \<and> is_active alice \<and>
   authenticate_user demo_lib [alice, bob, carol] 1700000000123456 '' Alice@X.com''
       ''wonderland9'' None
     = Inr (alice, [alice, bob, carol])"
proof -
  have n: "strip (lower '' Alice@X.com'') = ''alice@x.com''" by code_simp
  have 1: "authenticate_user demo_lib [alice, bob, carol] 1700000000123456 '' Alice@X.com''
       ''wonderland9'' (Some ''10.0.0.1'')
     = Inr (alice\<lparr>last_login_ip := Some ''10.0.0.1'', updated_at := 1700000000123456\<rparr>,
            [alice\<lparr>last_login_ip := Some ''10.0.0.1'', updated_at := 1700000000123456\<rparr>,
             bob, carol])"
    by (simp add: authenticate_user_def authenticate_def check_password_def truthy_def
        update_last_login_ip_def save_last_login_ip_def demo_lib_def alice_def bob_def
        carol_def n Let_def)
  have 2: "authenticate_user demo_lib [alice, bob, carol] 1700000000123456 '' Alice@X.com''
       ''wonderland9'' None = Inr (alice, [alice, bob, carol])"
    by (simp add: authenticate_user_def authenticate_def check_password_def truthy_def
        demo_lib_def alice_def bob_def carol_def n Let_def)
  have 3: "find (\<lambda>r. email r = strip (lower '' Alice@X.com'')) [alice, bob, carol] = Some alice"
    by (simp add: n alice_def)
  from authenticate_user_frame[OF 1] obtain u where
    "find (\<lambda>r. email r = strip (lower '' Alice@X.com'')) [alice, bob, carol] = Some u"
    "check_password demo_lib u ''wonderland9''" "is_active u"
    by blast
  with 3 have "check_password demo_lib alice ''wonderland9'' \<and> is_active alice" by simp
  with 1 2 3 show ?thesis by blast
qed

section \<open>The time of an event\<close>

text \<open>
  C10. Two events of the same class built without \<open>occurred_at\<close> carry the same time,
  whatever their other fields and whenever they are built: the default of the class,
  which is the reading of the clock when the class was defined during the load of the
  module. Each of the four classes has its own reading.
\<close>

theorem occurred_at_default_per_class:
  "occurred_at (new_UserRegistered M a e f None) = occurred_at (new_UserRegistered M a' e' f' None) \<and>
   occurred_at (new_UserEmailVerified M a e None) = occurred_at (new_UserEmailVerified M a' e' None) \<and>
   occurred_at (new_UserLoggedIn M a e i None) = occurred_at (new_UserLoggedIn M a' e' i' None) \<and>
   occurred_at (new_UserPasswordChanged M a e None)
     = occurred_at (new_UserPasswordChanged M a' e' None) \<and>
   occurred_at (new_UserRegistered (load_user_events clock) a e f None) = clock 0 \<and>
   occurred_at (new_UserEmailVerified (load_user_events clock) a e None) = clock 1 \<and>
   occurred_at (new_UserLoggedIn (load_user_events clock) a e i None) = clock 2 \<and>
   occurred_at (new_UserPasswordChanged (load_user_events clock) a e None) = clock 3"
  by (simp add: new_UserRegistered_def new_UserEmailVerified_def new_UserLoggedIn_def
      new_UserPasswordChanged_def load_user_events_def)

text \<open>
  Events of two different classes need not agree: with a clock that advances by a
  microsecond between readings, a registration event and a verification event built
  without \<open>occurred_at\<close> differ.
\<close>

theorem occurred_at_across_classes_counterexample:
  "occurred_at (new_UserRegistered (load_user_events (\<lambda>n. 1700000000123456 + int n))
      (UUID ''0a1b2c3d-1111-4aaa-8aaa-000000000001'') ''alice@x.com'' ''Alice L'' None)
   \<noteq> occurred_at (new_UserEmailVerified (load_user_events (\<lambda>n. 1700000000123456 + int n))
      (UUID ''0a1b2c3d-1111-4aaa-8aaa-000000000001'') ''alice@x.com'' None)"
  by (simp add: new_UserRegistered_def new_UserEmailVerified_def load_user_events_def)

end
